theory Spec2Isabelle
  imports Complex_Main "HOL-Library.Sublist"
begin

section \<open>Values exchanged with the clients: decoded JSON\<close>

text \<open>
  The broker of \<^verbatim>\<open>server_api/main.py\<close> reads every request with
  \<^verbatim>\<open>request.json\<close> and answers with \<^verbatim>\<open>jsonify\<close>. A decoded JSON value
  is \<^verbatim>\<open>None\<close>, a \<^verbatim>\<open>bool\<close>, an \<^verbatim>\<open>int\<close> (unbounded), a
  \<^verbatim>\<open>float\<close>, a \<^verbatim>\<open>str\<close>, a \<^verbatim>\<open>list\<close> or a \<^verbatim>\<open>dict\<close> with string
  keys, kept in insertion order. A float is kept as the rational number it denotes (every
  finite double is one); the source only tests floats for zero and compares them with
  integer constants, which Python does exactly. \<^verbatim>\<open>NaN\<close> and the infinities, which
  Python's decoder accepts beyond the JSON grammar, are left out. A string is a list of
  8-bit characters, read as the code points 0 to 255.
\<close>

datatype json =
    JNull
  | JBool bool
  | JInt int
  | JFloat rat
  | JStr string
  | JList "json list"
  | JDict "(string \<times> json) list"

type_synonym pydict = "(string \<times> json) list"

text \<open>The exceptions of Python that the modelled code can raise and does not catch.\<close>

datatype pyerr = AttributeError | TypeError | ZeroDivisionError | KeyError | IndexError

text \<open>Truth value of an object, as \<^verbatim>\<open>not x\<close> and \<^verbatim>\<open>if x\<close> test it.\<close>

fun truthy :: "json \<Rightarrow> bool" where
  "truthy JNull = False"
| "truthy (JBool b) = b"
| "truthy (JInt n) = (n \<noteq> 0)"
| "truthy (JFloat r) = (r \<noteq> 0)"
| "truthy (JStr s) = (s \<noteq> [])"
| "truthy (JList xs) = (xs \<noteq> [])"
| "truthy (JDict kvs) = (kvs \<noteq> [])"

text \<open>\<^verbatim>\<open>d.get(k)\<close> and \<^verbatim>\<open>d.get(k, default)\<close> on a dict.\<close>

definition py_get :: "pydict \<Rightarrow> string \<Rightarrow> json" where
  "py_get d k = (case map_of d k of None \<Rightarrow> JNull | Some v \<Rightarrow> v)"

definition py_get_default :: "pydict \<Rightarrow> string \<Rightarrow> json \<Rightarrow> json" where
  "py_get_default d k dflt = (case map_of d k of None \<Rightarrow> dflt | Some v \<Rightarrow> v)"

text \<open>\<^verbatim>\<open>k in d\<close> on a dict.\<close>

definition has_key :: "pydict \<Rightarrow> string \<Rightarrow> bool" where
  "has_key d k = (map_of d k \<noteq> None)"

text \<open>\<^verbatim>\<open>isinstance(v, str)\<close>\<close>

definition is_str :: "json \<Rightarrow> bool" where
  "is_str v = (case v of JStr s \<Rightarrow> True | _ \<Rightarrow> False)"

text \<open>\<^verbatim>\<open>s.startswith(p)\<close> on two strings.\<close>

definition startswith :: "string \<Rightarrow> string \<Rightarrow> bool" where
  "startswith s p = prefix p s"

text \<open>
  \<^verbatim>\<open>a == b\<close> on two decoded values: numbers (and booleans, which are integers in
  Python) are compared by value, strings, lists and dicts by content.
\<close>

fun num_val :: "json \<Rightarrow> rat option" where
  "num_val (JBool b) = Some (if b then 1 else 0)"
| "num_val (JInt n) = Some (of_int n)"
| "num_val (JFloat r) = Some r"
| "num_val _ = None"

fun py_eq :: "json \<Rightarrow> json \<Rightarrow> bool"
  and py_eq_list :: "json list \<Rightarrow> json list \<Rightarrow> bool"
  and py_eq_items :: "(string \<times> json) list \<Rightarrow> (string \<times> json) list \<Rightarrow> bool" where
  "py_eq JNull b = (b = JNull)"
| "py_eq (JStr s) b = (b = JStr s)"
| "py_eq (JList xs) b = (case b of JList ys \<Rightarrow> py_eq_list xs ys | _ \<Rightarrow> False)"
| "py_eq (JDict kvs) b =
     (case b of JDict kws \<Rightarrow> length kvs = length kws \<and> py_eq_items kvs kws | _ \<Rightarrow> False)"
| "py_eq (JBool x) b = (num_val b = Some (if x then 1 else 0))"
| "py_eq (JInt n) b = (num_val b = Some (of_int n))"
| "py_eq (JFloat r) b = (num_val b = Some r)"
| "py_eq_list [] ys = (ys = [])"
| "py_eq_list (x # xs) ys = (case ys of [] \<Rightarrow> False | y # ys' \<Rightarrow> py_eq x y \<and> py_eq_list xs ys')"
| "py_eq_items [] kws = True"
| "py_eq_items ((k, v) # kvs) kws =
     ((case map_of kws k of None \<Rightarrow> False | Some w \<Rightarrow> py_eq v w) \<and> py_eq_items kvs kws)"

text \<open>
  \<^verbatim>\<open>k in x\<close> for a string \<^verbatim>\<open>k\<close>: a key of a dict, an element of a list, a
  substring of a string; any other object is not iterable.
\<close>

fun py_contains :: "json \<Rightarrow> string \<Rightarrow> pyerr + bool" where
  "py_contains (JDict d) k = Inr (has_key d k)"
| "py_contains (JList xs) k = Inr (JStr k \<in> set xs)"
| "py_contains (JStr s) k = Inr (sublist k s)"
| "py_contains _ k = Inl TypeError"

text \<open>\<^verbatim>\<open>x[k]\<close> for a string \<^verbatim>\<open>k\<close>, \<^verbatim>\<open>x[0]\<close> and \<^verbatim>\<open>len(x)\<close>.\<close>

fun py_getitem :: "json \<Rightarrow> string \<Rightarrow> pyerr + json" where
  "py_getitem (JDict d) k = (case map_of d k of None \<Rightarrow> Inl KeyError | Some v \<Rightarrow> Inr v)"
| "py_getitem _ k = Inl TypeError"

fun py_first :: "json \<Rightarrow> pyerr + json" where
  "py_first (JList xs) = (case xs of [] \<Rightarrow> Inl IndexError | x # _ \<Rightarrow> Inr x)"
| "py_first (JStr s) = (case s of [] \<Rightarrow> Inl IndexError | c # _ \<Rightarrow> Inr (JStr [c]))"
| "py_first (JDict d) = Inl KeyError"
| "py_first _ = Inl TypeError"

fun py_len :: "json \<Rightarrow> pyerr + nat" where
  "py_len (JList xs) = Inr (length xs)"
| "py_len (JStr s) = Inr (length s)"
| "py_len (JDict d) = Inr (length d)"
| "py_len _ = Inl TypeError"

text \<open>\<^verbatim>\<open>x.get(k, default)\<close> on any object: only a dict has the method.\<close>

fun py_get_obj :: "json \<Rightarrow> string \<Rightarrow> json \<Rightarrow> pyerr + json" where
  "py_get_obj (JDict d) k dflt = Inr (py_get_default d k dflt)"
| "py_get_obj _ k dflt = Inl AttributeError"

text \<open>
  \<^verbatim>\<open>x.startswith(p)\<close>: only a string has the method, and its argument must be a
  string. \<^verbatim>\<open>x.split(":")[0]\<close> is the text before the first colon.
\<close>

fun py_startswith :: "json \<Rightarrow> json \<Rightarrow> pyerr + bool" where
  "py_startswith (JStr s) (JStr p) = Inr (startswith s p)"
| "py_startswith (JStr s) _ = Inl TypeError"
| "py_startswith _ _ = Inl AttributeError"

definition split0 :: "string \<Rightarrow> string" where
  "split0 s = takeWhile (\<lambda>c. c \<noteq> CHR '':'') s"

fun py_split0 :: "json \<Rightarrow> pyerr + json" where
  "py_split0 (JStr s) = Inr (JStr (split0 s))"
| "py_split0 _ = Inl AttributeError"

text \<open>\<^verbatim>\<open>d[k] = v\<close> on a dict: a known key keeps its place, a new one goes last.\<close>

fun dict_set :: "('k \<times> 'v) list \<Rightarrow> 'k \<Rightarrow> 'v \<Rightarrow> ('k \<times> 'v) list" where
  "dict_set [] k v = [(k, v)]"
| "dict_set ((k', v') # kvs) k v =
     (if k' = k then (k, v) # kvs else (k', v') # dict_set kvs k v)"

text \<open>Sequencing of computations that may raise.\<close>

definition sum_bind :: "'x + 'r \<Rightarrow> ('r \<Rightarrow> 'x + 's) \<Rightarrow> 'x + 's" where
  "sum_bind m f = (case m of Inl err \<Rightarrow> Inl err | Inr r \<Rightarrow> f r)"

lemma sum_bind_cong [fundef_cong]:
  "m = m' \<Longrightarrow> (\<And>r. m' = Inr r \<Longrightarrow> f r = f' r) \<Longrightarrow> sum_bind m f = sum_bind m' f'"
  by (cases m') (simp_all add: sum_bind_def)

text \<open>\<^verbatim>\<open>x[k] = v\<close> for a string \<^verbatim>\<open>k\<close>: only a dict takes it.\<close>

fun py_setitem :: "json \<Rightarrow> string \<Rightarrow> json \<Rightarrow> pyerr + json" where
  "py_setitem (JDict d) k v = Inr (JDict (dict_set d k v))"
| "py_setitem _ k v = Inl TypeError"

text \<open>
  The decimal numeral of a natural number, as an f-string prints an \<^verbatim>\<open>int\<close> that
  is not negative.
\<close>

definition digit_char :: "nat \<Rightarrow> char" where
  "digit_char d = ''0123456789'' ! d"

function str_of_nat :: "nat \<Rightarrow> string" where
  "str_of_nat n =
     (if n < 10 then [digit_char n] else str_of_nat (n div 10) @ [digit_char (n mod 10)])"
  by pat_completeness auto
termination
  by (relation "measure id") auto

declare str_of_nat.simps [simp del]

section \<open>Response sanitizer\<close>

text \<open>
  \<^verbatim>\<open>re.sub(r"<think>.*?</think>", "", text, flags=re.DOTALL)\<close> scans the text from
  the left. At a position where \<^verbatim>\<open><think>\<close> starts, the lazy \<^verbatim>\<open>.*?\<close> (which
  matches newlines too under \<^verbatim>\<open>DOTALL\<close>) extends to the first \<^verbatim>\<open></think>\<close>
  that follows; the match is dropped and the scan goes on behind it. Where no closing
  marker follows, there is no match at that position and the character is kept.
\<close>

fun find_close :: "string \<Rightarrow> string option" where
  "find_close [] = None"
| "find_close (c # cs) =
     (if startswith (c # cs) ''</think>'' then Some (drop 8 (c # cs)) else find_close cs)"

lemma find_close_length: "find_close s = Some r \<Longrightarrow> length r < length s"
  by (induction s) (auto split: if_splits)

function re_sub_think :: "string \<Rightarrow> string" where
  "re_sub_think [] = []"
| "re_sub_think (c # cs) =
     (if startswith (c # cs) ''<think>''
      then (case find_close (drop 7 (c # cs)) of
              Some rest \<Rightarrow> re_sub_think rest
            | None \<Rightarrow> c # re_sub_think cs)
      else c # re_sub_think cs)"
  by pat_completeness auto
termination
proof (relation "measure length")
  show "wf (measure length)" by simp
next
  fix c :: char and cs rest
  assume "find_close (drop 7 (c # cs)) = Some rest"
  then have "length rest < length (drop 7 (c # cs))" by (rule find_close_length)
  then show "(rest, c # cs) \<in> measure length" by simp
qed simp_all

text \<open>
  \<^verbatim>\<open>str.strip()\<close> removes from both ends the characters for which
  \<^verbatim>\<open>str.isspace\<close> holds; below code point 256 these are 9 to 13, 28 to 32, 133 and 160.
\<close>

definition py_isspace :: "char \<Rightarrow> bool" where
  "py_isspace c = (of_char c \<in> {9, 10, 11, 12, 13, 28, 29, 30, 31, 32, 133, 160 :: nat})"

definition py_strip :: "string \<Rightarrow> string" where
  "py_strip s = rev (dropWhile py_isspace (rev (dropWhile py_isspace s)))"

definition strip_think_blocks :: "string \<Rightarrow> string" where
  "strip_think_blocks text = py_strip (re_sub_think text)"

text \<open>
  A text holds a complete block when somewhere an opening marker is followed, behind it,
  by a closing marker: exactly when \<^verbatim>\<open>re.sub\<close> finds a match.
\<close>

fun has_block :: "string \<Rightarrow> bool" where
  "has_block [] = False"
| "has_block (c # cs) =
     ((startswith (c # cs) ''<think>'' \<and> find_close (drop 7 (c # cs)) \<noteq> None) \<or> has_block cs)"

section \<open>Provider registry\<close>

text \<open>
  The module keeps two globals: \<^verbatim>\<open>compute_providers\<close>, a dict from provider id to
  the provider's record, and \<^verbatim>\<open>provider_counter\<close>. A provider's record is the dict
  that \<^verbatim>\<open>join_pool\<close> stores; its field \<^verbatim>\<open>id\<close> is \<open>id_field\<close> here. The
  \<^verbatim>\<open>models\<close> are kept as the client sent them. \<^verbatim>\<open>max_clients\<close> is an
  \<^verbatim>\<open>int\<close> (Python's \<^verbatim>\<open>True\<close>, which passes the \<^verbatim>\<open>isinstance\<close> test of
  the source, divides and compares as 1 and is kept as 1).
\<close>

record provider =
  id_field :: string
  ollama_base_url :: string
  models :: "json list"
  gpu_info :: json
  vram_gb :: json
  max_clients :: int
  current_load :: int

record state =
  compute_providers :: "(string \<times> provider) list"
  provider_counter :: nat


text \<open>
  What a request handler hands back: a JSON body with a status code, or an exception that
  nothing catches (the framework answers 500).
\<close>

datatype outcome = Returned json nat | Raised pyerr


definition error_body :: "string \<Rightarrow> json" where
  "error_body msg = JDict [(''error'', JStr msg)]"











section \<open>Model catalogue\<close>

text \<open>
  \<^verbatim>\<open>get_available_models\<close> fills the dict \<^verbatim>\<open>all_models_summary\<close>, keyed by
  model name, and returns its values in the order the names were first seen. A name that is
  a list or a dict cannot be hashed; two keys are the same key when \<^verbatim>\<open>==\<close> holds.
\<close>

record model_summary =
  summary_name :: json
  providers_available :: int
  summary_details :: json

fun hashable :: "json \<Rightarrow> bool" where
  "hashable (JList xs) = False"
| "hashable (JDict d) = False"
| "hashable _ = True"

fun bump :: "(json \<times> model_summary) list \<Rightarrow> json \<Rightarrow> (json \<times> model_summary) list" where
  "bump [] model_name = []"
| "bump ((k, e) # rest) model_name =
     (if py_eq k model_name
      then (k, e\<lparr>providers_available := providers_available e + 1\<rparr>) # rest
      else (k, e) # bump rest model_name)"

definition summarize_model ::
  "json \<Rightarrow> (json \<times> model_summary) list \<Rightarrow> pyerr + (json \<times> model_summary) list" where
  "summarize_model model_info all_models_summary =
     sum_bind (py_get_obj model_info ''name'' JNull) (\<lambda>model_name.
       if truthy model_name then
         if \<not> hashable model_name then Inl TypeError
         else if \<not> list_ex (\<lambda>(k, e). py_eq k model_name) all_models_summary then
           sum_bind (py_get_obj model_info ''details'' (JDict [])) (\<lambda>d.
             Inr (all_models_summary @
               [(model_name, \<lparr>summary_name = model_name, providers_available = 1,
                              summary_details = d\<rparr>)]))
         else Inr (bump all_models_summary model_name)
       else Inr all_models_summary)"

fun summarize_models ::
  "json list \<Rightarrow> (json \<times> model_summary) list \<Rightarrow> pyerr + (json \<times> model_summary) list" where
  "summarize_models [] all_models_summary = Inr all_models_summary"
| "summarize_models (model_info # rest) all_models_summary =
     sum_bind (summarize_model model_info all_models_summary) (summarize_models rest)"

fun summarize_providers ::
  "(string \<times> provider) list \<Rightarrow> (json \<times> model_summary) list
     \<Rightarrow> pyerr + (json \<times> model_summary) list" where
  "summarize_providers [] all_models_summary = Inr all_models_summary"
| "summarize_providers ((pid, provider_data) # rest) all_models_summary =
     (if current_load provider_data < max_clients provider_data
      then sum_bind (summarize_models (models provider_data) all_models_summary)
             (summarize_providers rest)
      else summarize_providers rest all_models_summary)"

text \<open>The handler's list, sent with status 200.\<close>

definition get_available_models :: "state \<Rightarrow> pyerr + model_summary list" where
  "get_available_models st =
     sum_bind (summarize_providers (compute_providers st) [])
       (\<lambda>all_models_summary. Inr (map snd all_models_summary))"

section \<open>Matcher\<close>

text \<open>
  The two nested loops of \<^verbatim>\<open>completions\<close> carry \<^verbatim>\<open>selected_provider\<close> and
  \<^verbatim>\<open>best_match_level\<close>; a provider is the item (key and record) of the registry. The
  inner loop ends at an exact match (\<^verbatim>\<open>break\<close>); the outer loop ends when the level
  is 2.
\<close>

type_synonym selection = "(string \<times> provider) option \<times> nat"

fun scan_models ::
  "json list \<Rightarrow> json \<Rightarrow> string \<times> provider \<Rightarrow> selection \<Rightarrow> pyerr + selection" where
  "scan_models [] model_name_req item sel = Inr sel"
| "scan_models (model_info # rest) model_name_req item sel =
     sum_bind (py_get_obj model_info ''name'' JNull) (\<lambda>current_model_name.
       if py_eq current_model_name model_name_req \<and> snd sel < 2 then Inr (Some item, 2)
       else sum_bind (py_contains model_name_req '':'') (\<lambda>colon.
         if colon then
           sum_bind (py_split0 model_name_req) (\<lambda>base.
           sum_bind (py_startswith current_model_name base) (\<lambda>sw.
             if sw \<and> snd sel < 1 then scan_models rest model_name_req item (Some item, 1)
             else scan_models rest model_name_req item sel))
         else
           sum_bind (py_startswith current_model_name model_name_req) (\<lambda>sw.
             if sw \<and> snd sel < 1 then scan_models rest model_name_req item (Some item, 1)
             else scan_models rest model_name_req item sel)))"

fun scan_providers ::
  "(string \<times> provider) list \<Rightarrow> json \<Rightarrow> selection \<Rightarrow> pyerr + selection" where
  "scan_providers [] model_name_req sel = Inr sel"
| "scan_providers (item # rest) model_name_req sel =
     (if max_clients (snd item) \<le> current_load (snd item)
      then scan_providers rest model_name_req sel
      else sum_bind (scan_models (models (snd item)) model_name_req item sel) (\<lambda>sel'.
        if snd sel' = 2 then Inr sel' else scan_providers rest model_name_req sel'))"

text \<open>
  The sort key is \<^verbatim>\<open>current_load / max_clients\<close>, a \<^verbatim>\<open>float\<close>: the double
  nearest to the exact quotient. The rounding is the parameter \<open>rnd\<close>, of which
  nothing is assumed (quotients beyond the range of a double are not modelled).
  \<^verbatim>\<open>sorted\<close> is stable, as \<^const>\<open>sort_key\<close> is, and a provider with
  \<^verbatim>\<open>max_clients\<close> 0 makes the key raise.
\<close>

definition load_ratio :: "(rat \<Rightarrow> 'k) \<Rightarrow> provider \<Rightarrow> 'k" where
  "load_ratio rnd p = rnd (of_int (current_load p) / of_int (max_clients p))"

definition providers_sorted_by_load ::
  "(rat \<Rightarrow> 'k::linorder) \<Rightarrow> (string \<times> provider) list \<Rightarrow> (string \<times> provider) list" where
  "providers_sorted_by_load rnd providers = sort_key (\<lambda>item. load_ratio rnd (snd item)) providers"

definition select_provider ::
  "(rat \<Rightarrow> 'k::linorder) \<Rightarrow> (string \<times> provider) list \<Rightarrow> json \<Rightarrow> pyerr + selection" where
  "select_provider rnd providers model_name_req =
     (if list_ex (\<lambda>item. max_clients (snd item) = 0) providers then Inl ZeroDivisionError
      else scan_providers (providers_sorted_by_load rnd providers) model_name_req (None, 0))"

section \<open>The world outside\<close>

text \<open>
  What the broker does not decide is given from outside: the process environment, the
  replies of the provider backends and of the Pollinations service to a request, and two
  library printers (\<^verbatim>\<open>json.dumps\<close>, and \<^verbatim>\<open>str\<close> of a value that is not a
  string). A call of \<^verbatim>\<open>requests.post\<close> raises a \<^verbatim>\<open>RequestException\<close> (no
  connection, timeout) or returns a status code and a body; \<^verbatim>\<open>response.json()\<close>
  raises when the body is not JSON (a \<^verbatim>\<open>RequestException\<close> as well, since requests
  2.27). Every outbound call is logged.
\<close>

datatype provider_reply =
    RequestFailed
  | HttpReply nat "json option"

datatype fallback_reply =
    FallbackFailed string
  | FallbackReply nat string "string + json"

datatype call =
    ProviderCall string pydict
  | PollinationsCall string pydict pydict

record world =
  environ :: "string \<Rightarrow> string option"
  provider_backend :: "string \<Rightarrow> pydict \<Rightarrow> provider_reply"
  pollinations_backend :: "string \<Rightarrow> pydict \<Rightarrow> pydict \<Rightarrow> fallback_reply"
  json_dumps :: "json \<Rightarrow> string"
  py_str :: "json \<Rightarrow> string"

text \<open>\<^verbatim>\<open>response.raise_for_status()\<close> raises for the codes 400 to 599.\<close>

definition is_http_error :: "nat \<Rightarrow> bool" where
  "is_http_error code = (400 \<le> code \<and> code < 600)"

section \<open>Fallback client\<close>

definition placeholder_key :: string where
  "placeholder_key = ''YOUR_POLLINATIONS_API_KEY_HERE''"

definition find_pollinations_api_key :: "world \<Rightarrow> string" where
  "find_pollinations_api_key w =
     (case environ w ''POLLINATIONS_API_KEY'' of None \<Rightarrow> placeholder_key | Some k \<Rightarrow> k)"

text \<open>\<^verbatim>\<open>model if ":" not in model else model.split(":")[0]\<close>\<close>

definition final_model_for_pollinations :: "json \<Rightarrow> pyerr + json" where
  "final_model_for_pollinations model =
     sum_bind (py_contains model '':'') (\<lambda>colon.
       if \<not> colon then Inr model else py_split0 model)"

definition pollinations_ok :: "json \<Rightarrow> string \<Rightarrow> pydict" where
  "pollinations_ok text_value source = [(''response'', text_value), (''source'', JStr source)]"

definition pollinations_failure :: "string \<Rightarrow> pydict" where
  "pollinations_failure detail = [(''error'', JStr detail), (''source'', JStr ''pollinations'')]"

text \<open>
  \<^verbatim>\<open>"choices" in d and len(d["choices"]) > 0 and "text" in d["choices"][0]\<close> and
  \<^verbatim>\<open>"data" in d and k in d["data"]\<close>
\<close>

definition has_choice_text :: "json \<Rightarrow> pyerr + bool" where
  "has_choice_text response_data =
     sum_bind (py_contains response_data ''choices'') (\<lambda>c.
       if \<not> c then Inr False
       else sum_bind (py_getitem response_data ''choices'') (\<lambda>choices.
         sum_bind (py_len choices) (\<lambda>n.
           if \<not> 0 < n then Inr False
           else sum_bind (py_first choices) (\<lambda>choice. py_contains choice ''text''))))"

definition has_data_field :: "json \<Rightarrow> string \<Rightarrow> pyerr + bool" where
  "has_data_field response_data k =
     sum_bind (py_contains response_data ''data'') (\<lambda>c.
       if \<not> c then Inr False
       else sum_bind (py_getitem response_data ''data'') (\<lambda>d. py_contains d k))"

text \<open>The chain that reads the text out of a successful reply.\<close>

definition normalize_response :: "world \<Rightarrow> json \<Rightarrow> nat \<Rightarrow> pyerr + pydict \<times> nat" where
  "normalize_response w response_data code =
     sum_bind (py_contains response_data ''completion'') (\<lambda>c1.
       if c1 then
         sum_bind (py_getitem response_data ''completion'') (\<lambda>v.
           Inr (pollinations_ok v ''pollinations'', code))
       else sum_bind (has_choice_text response_data) (\<lambda>c2.
         if c2 then
           sum_bind (py_getitem response_data ''choices'') (\<lambda>choices.
           sum_bind (py_first choices) (\<lambda>choice.
           sum_bind (py_getitem choice ''text'') (\<lambda>v.
             Inr (pollinations_ok v ''pollinations'', code))))
         else sum_bind (has_data_field response_data ''completion'') (\<lambda>c3.
           if c3 then
             sum_bind (py_getitem response_data ''data'') (\<lambda>d.
             sum_bind (py_getitem d ''completion'') (\<lambda>v.
               Inr (pollinations_ok v ''pollinations'', code)))
           else sum_bind (has_data_field response_data ''text'') (\<lambda>c4.
             if c4 then
               sum_bind (py_getitem response_data ''data'') (\<lambda>d.
               sum_bind (py_getitem d ''text'') (\<lambda>v.
                 Inr (pollinations_ok v ''pollinations'', code)))
             else Inr (pollinations_ok (JStr (json_dumps w response_data))
                         ''pollinations_unknown_structure'', code)))))"

text \<open>
  The handler of \<^verbatim>\<open>HTTPError\<close>. An f-string prints a string as it is and any other
  value with \<^verbatim>\<open>str\<close>. An exception raised inside the handler is caught by nothing.
\<close>

definition format_value :: "world \<Rightarrow> json \<Rightarrow> string" where
  "format_value w v = (case v of JStr s \<Rightarrow> s | _ \<Rightarrow> py_str w v)"

definition http_error_result ::
  "world \<Rightarrow> nat \<Rightarrow> string \<Rightarrow> string + json \<Rightarrow> pyerr + pydict \<times> nat" where
  "http_error_result w code body_text decoded =
     (let error_detail = ''Pollinations API request failed with status '' @ str_of_nat code in
      case decoded of
        Inl msg \<Rightarrow> Inr (pollinations_failure (error_detail @ '': '' @ body_text), code)
      | Inr error_json \<Rightarrow>
          sum_bind (py_get_obj error_json ''error'' (JDict [])) (\<lambda>err.
          sum_bind (py_get_obj err ''message'' (JStr body_text)) (\<lambda>msg.
            Inr (pollinations_failure (error_detail @ '': '' @ format_value w msg), code))))"

definition pollinations_url :: "world \<Rightarrow> string" where
  "pollinations_url w =
     (case environ w ''POLLINATIONS_TEXT_API_URL'' of
        None \<Rightarrow> ''https://api.pollinations.ai/v1/text/completions''
      | Some u \<Rightarrow> u)"

text \<open>The literal \<^verbatim>\<open>0.7\<close> is the double 3152519739159347 / 2^52.\<close>

definition call_pollinations_api ::
  "world \<Rightarrow> json \<Rightarrow> json \<Rightarrow> (pyerr + pydict \<times> nat) \<times> call list" where
  "call_pollinations_api w prompt model =
     (let api_key = find_pollinations_api_key w in
      if api_key = placeholder_key
      then (Inr ([(''error'', JStr ''Pollinations API key not configured'')], 503), [])
      else
        (let headers = [(''Authorization'', JStr (''Bearer '' @ api_key)),
                        (''Content-Type'', JStr ''application/json'')]
         in case final_model_for_pollinations model of
              Inl e \<Rightarrow> (Inl e, [])
            | Inr final_model \<Rightarrow>
                (let payload = [(''model'', final_model), (''prompt'', prompt),
                                (''max_tokens'', JInt 1500),
                                (''temperature'',
                                   JFloat (3152519739159347 / 4503599627370496))];
                     sent = [PollinationsCall (pollinations_url w) headers payload]
                 in case pollinations_backend w (pollinations_url w) headers payload of
                      FallbackFailed msg \<Rightarrow>
                        (Inr (pollinations_failure
                                (''Pollinations API request failed: '' @ msg), 500), sent)
                    | FallbackReply code body_text decoded \<Rightarrow>
                        if is_http_error code
                        then (http_error_result w code body_text decoded, sent)
                        else (case decoded of
                                Inl msg \<Rightarrow>
                                  (Inr (pollinations_failure
                                          (''Pollinations API request failed: '' @ msg), 500),
                                   sent)
                              | Inr response_data \<Rightarrow>
                                  (normalize_response w response_data code, sent)))))"

section \<open>Dispatcher\<close>

text \<open>
  \<^verbatim>\<open>selected_provider\<close> is the very dict that the registry holds under the
  provider's key, so \<^verbatim>\<open>selected_provider['current_load'] += d\<close> changes the
  registry's entry of that key.
\<close>

definition add_load :: "string \<Rightarrow> int \<Rightarrow> state \<Rightarrow> state" where
  "add_load pid d st =
     st\<lparr>compute_providers :=
          map (\<lambda>(k, p). if k = pid then (k, p\<lparr>current_load := current_load p + d\<rparr>) else (k, p))
            (compute_providers st)\<rparr>"

text \<open>The payload sent to the provider: the entries whose value is \<^verbatim>\<open>None\<close> are removed.\<close>

definition ollama_payload :: "pydict \<Rightarrow> json \<Rightarrow> json \<Rightarrow> pydict" where
  "ollama_payload data prompt model_name_req =
     filter (\<lambda>(k, v). v \<noteq> JNull)
       [(''model'', model_name_req),
        (''prompt'', prompt),
        (''stream'', py_get_default data ''stream'' (JBool False)),
        (''options'', py_get_default data ''options'' (JDict [])),
        (''system'', py_get data ''system''),
        (''template'', py_get data ''template''),
        (''context'', py_get data ''context''),
        (''format'', py_get data ''format'')]"

text \<open>
  \<^verbatim>\<open>if "response" in completion_data and isinstance(completion_data["response"], str)\<close>:
  the text is replaced by its sanitized form.
\<close>

definition sanitize_completion :: "json \<Rightarrow> pyerr + json" where
  "sanitize_completion completion_data =
     sum_bind (py_contains completion_data ''response'') (\<lambda>c.
       if c then
         sum_bind (py_getitem completion_data ''response'') (\<lambda>r.
           case r of
             JStr s \<Rightarrow> py_setitem completion_data ''response'' (JStr (strip_think_blocks s))
           | _ \<Rightarrow> Inr completion_data)
       else Inr completion_data)"

text \<open>
  The \<^verbatim>\<open>try\<close> block of \<^verbatim>\<open>completions\<close> with its two handlers. The result
  \<open>None\<close> is the fall through to the fallback. The load is raised before the block;
  it is lowered after \<^verbatim>\<open>response.json()\<close> has returned, and in each handler.
\<close>

definition forward_to_provider ::
  "world \<Rightarrow> state \<Rightarrow> string \<times> provider \<Rightarrow> pydict \<Rightarrow> json \<Rightarrow> json
     \<Rightarrow> outcome option \<times> state \<times> call list" where
  "forward_to_provider w st item data prompt model_name_req =
     (let pid = fst item;
          url = ollama_base_url (snd item) @ ''/api/generate'';
          st1 = add_load pid 1 st;
          payload = ollama_payload data prompt model_name_req;
          sent = [ProviderCall url payload]
      in case provider_backend w url payload of
           RequestFailed \<Rightarrow> (None, add_load pid (- 1) st1, sent)
         | HttpReply code body \<Rightarrow>
             if is_http_error code then (None, add_load pid (- 1) st1, sent)
             else (case body of
                     None \<Rightarrow> (None, add_load pid (- 1) st1, sent)
                   | Some completion_data \<Rightarrow>
                       (let st2 = add_load pid (- 1) st1 in
                        case sanitize_completion completion_data of
                          Inl e \<Rightarrow> (None, add_load pid (- 1) st2, sent)
                        | Inr body' \<Rightarrow> (Some (Returned body' code), st2, sent))))"

text \<open>The end of \<^verbatim>\<open>completions\<close>: the fallback call and the sanitizing of its text.\<close>

definition sanitize_field :: "pydict \<Rightarrow> string \<Rightarrow> pydict" where
  "sanitize_field result k =
     (case py_get result k of
        JStr s \<Rightarrow> dict_set result k (JStr (strip_think_blocks s))
      | _ \<Rightarrow> result)"

definition sanitize_result :: "pydict \<Rightarrow> pydict" where
  "sanitize_result result =
     (if has_key result ''response'' \<and> is_str (py_get result ''response'')
      then sanitize_field result ''response''
      else if has_key result ''completion'' \<and> is_str (py_get result ''completion'')
      then sanitize_field result ''completion''
      else result)"

definition fall_back ::
  "world \<Rightarrow> state \<Rightarrow> call list \<Rightarrow> json \<Rightarrow> json \<Rightarrow> outcome \<times> state \<times> call list" where
  "fall_back w st calls prompt model_name_req =
     (case call_pollinations_api w prompt model_name_req of
        (Inl e, sent) \<Rightarrow> (Raised e, st, calls @ sent)
      | (Inr (result, status_code), sent) \<Rightarrow>
          (Returned (JDict (sanitize_result result)) status_code, st, calls @ sent))"

definition completions ::
  "(rat \<Rightarrow> 'k::linorder) \<Rightarrow> world \<Rightarrow> state \<Rightarrow> json \<Rightarrow> outcome \<times> state \<times> call list" where
  "completions rnd w st request_json =
     (case request_json of
        JDict data \<Rightarrow>
          (let prompt = py_get data ''prompt'';
               model_name_req = py_get data ''model''
           in if \<not> truthy prompt \<or> \<not> truthy model_name_req
              then (Returned (error_body ''prompt and model are required'') 400, st, [])
              else (case select_provider rnd (compute_providers st) model_name_req of
                      Inl e \<Rightarrow> (Raised e, st, [])
                    | Inr (selected_provider, best_match_level) \<Rightarrow>
                        (case selected_provider of
                           None \<Rightarrow> fall_back w st [] prompt model_name_req
                         | Some item \<Rightarrow>
                             (case forward_to_provider w st item data prompt model_name_req of
                                (Some out, st', sent) \<Rightarrow> (out, st', sent)
                              | (None, st', sent) \<Rightarrow>
                                  fall_back w st' sent prompt model_name_req))))
      | _ \<Rightarrow> (Raised AttributeError, st, []))"

section \<open>The specification's reading of the registration rules\<close>





section \<open>Properties of the sanitizer\<close>

lemma re_sub_no_block: "\<not> has_block s \<Longrightarrow> re_sub_think s = s"
  by (induction s rule: re_sub_think.induct) (auto split: option.splits)

lemma re_sub_length_le: "length (re_sub_think s) \<le> length s"
proof (induction s rule: re_sub_think.induct)
  case 1
  then show ?case by simp
next
  case (2 c cs)
  show ?case
  proof (cases "startswith (c # cs) ''<think>''")
    case False
    with 2 show ?thesis by simp
  next
    case True
    show ?thesis
    proof (cases "find_close (drop 7 (c # cs))")
      case None
      with True 2 show ?thesis by simp
    next
      case (Some r)
      from find_close_length[OF Some] have "length r < length (c # cs)" by simp
      moreover from 2(2)[OF True Some] have "length (re_sub_think r) \<le> length r" .
      ultimately show ?thesis using True Some by simp
    qed
  qed
qed

lemma re_sub_length_less: "has_block s \<Longrightarrow> length (re_sub_think s) < length s"
proof (induction s rule: re_sub_think.induct)
  case 1
  then show ?case by simp
next
  case (2 c cs)
  show ?case
  proof (cases "startswith (c # cs) ''<think>''")
    case False
    with 2 show ?thesis by simp
  next
    case True
    show ?thesis
    proof (cases "find_close (drop 7 (c # cs))")
      case None
      with True 2 show ?thesis by simp
    next
      case (Some r)
      from find_close_length[OF Some] have "length r < length (c # cs)" by simp
      moreover have "length (re_sub_think r) \<le> length r" by (rule re_sub_length_le)
      ultimately show ?thesis using True Some by simp
    qed
  qed
qed

lemma rstrip_prefix: "prefix (rev (dropWhile P (rev t))) t"
proof -
  have "suffix (dropWhile P (rev t)) (rev t)" by (rule suffix_dropWhile)
  then show ?thesis by (metis suffix_to_prefix rev_rev_ident)
qed

lemma py_strip_idem: "py_strip (py_strip s) = py_strip s"
proof -
  define t where "t = dropWhile py_isspace s"
  define u where "u = rev (dropWhile py_isspace (rev t))"
  have pu: "prefix u t" unfolding u_def by (rule rstrip_prefix)
  have "dropWhile py_isspace u = u"
  proof (cases u)
    case Nil
    then show ?thesis by simp
  next
    case (Cons a u')
    with pu obtain t' where t: "t = a # t'" by (cases t) auto
    have "\<not> py_isspace (hd t)" using t unfolding t_def by (metis hd_dropWhile list.distinct(1))
    then show ?thesis using Cons t by simp
  qed
  moreover have "dropWhile py_isspace (rev u) = rev u"
    unfolding u_def by simp
  ultimately show ?thesis
    by (simp add: py_strip_def t_def[symmetric] u_def[symmetric])
qed

lemma py_strip_length: "length (py_strip s) \<le> length s"
proof -
  have "length (py_strip s) \<le> length (dropWhile py_isspace s)"
    unfolding py_strip_def
    using length_dropWhile_le[of py_isspace "rev (dropWhile py_isspace s)"] by simp
  also have "\<dots> \<le> length s" by (rule length_dropWhile_le)
  finally show ?thesis .
qed

text \<open>
  Claim C3, as amended. Sanitizing a second time changes nothing exactly when the first
  result holds no complete block (an opening marker with a closing marker somewhere behind
  it); removing a block can join the pieces of a new one, so this is not so for every text.
  On the text \<^verbatim>\<open>a<think>ignored across\<close>, a newline, \<^verbatim>\<open>lines</think>b\<close> the
  result is \<^verbatim>\<open>ab\<close>.
\<close>

theorem strip_think_blocks_idempotent_iff:
  "(strip_think_blocks (strip_think_blocks t) = strip_think_blocks t
      \<longleftrightarrow> \<not> has_block (strip_think_blocks t))
   \<and> strip_think_blocks (''a<think>ignored across'' @ [CHR 0x0A] @ ''lines</think>b'') = ''ab''"
proof (intro conjI iffI)
  assume nb: "\<not> has_block (strip_think_blocks t)"
  then have "re_sub_think (strip_think_blocks t) = strip_think_blocks t"
    by (rule re_sub_no_block)
  then show "strip_think_blocks (strip_think_blocks t) = strip_think_blocks t"
    by (simp add: strip_think_blocks_def py_strip_idem)
next
  assume eq: "strip_think_blocks (strip_think_blocks t) = strip_think_blocks t"
  show "\<not> has_block (strip_think_blocks t)"
  proof
    assume "has_block (strip_think_blocks t)"
    then have "length (re_sub_think (strip_think_blocks t)) < length (strip_think_blocks t)"
      by (rule re_sub_length_less)
    moreover have "length (strip_think_blocks (strip_think_blocks t))
        \<le> length (re_sub_think (strip_think_blocks t))"
      unfolding strip_think_blocks_def[of "py_strip (re_sub_think t)"]
      by (simp add: strip_think_blocks_def py_strip_length)
    ultimately show False using eq by simp
  qed
next
  show "strip_think_blocks (''a<think>ignored across'' @ [CHR 0x0A] @ ''lines</think>b'') = ''ab''"
    by (simp add: strip_think_blocks_def py_strip_def py_isspace_def startswith_def)
qed

text \<open>The theorem at a text with a block and blanks around it.\<close>

theorem strip_think_blocks_idempotent_witness:
  "strip_think_blocks (strip_think_blocks ''  a<think>x</think>b '')
     = strip_think_blocks ''  a<think>x</think>b ''
   \<and> strip_think_blocks ''  a<think>x</think>b '' = ''ab''"
  using strip_think_blocks_idempotent_iff[of "''  a<think>x</think>b ''"]
  by (simp add: strip_think_blocks_def py_strip_def py_isspace_def startswith_def)

text \<open>
  Claim C3 as stated fails: in \<^verbatim>\<open><th<think></think>ink>x</think>\<close> the only block
  is the empty one in the middle; removing it leaves \<^verbatim>\<open><think>x</think>\<close>, which a
  second pass empties.
\<close>

theorem strip_think_blocks_not_idempotent:
  "strip_think_blocks (strip_think_blocks ''<th<think></think>ink>x</think>'')
     \<noteq> strip_think_blocks ''<th<think></think>ink>x</think>''"
  by (simp add: strip_think_blocks_def py_strip_def py_isspace_def startswith_def)

section \<open>Properties of the registration\<close>


















end
